theory Spec2Isabelle
  imports Complex_Main
begin

section \<open>Numbers, vectors and dictionaries\<close>

text \<open>
  The program computes with Python floats and numpy float64 arrays. They are modelled as
  exact reals: \<open>+\<close>, \<open>-\<close>, \<open>*\<close>, \<open>/\<close>, \<open>cos\<close> and \<open>sqrt\<close> are the mathematical
  operations, without rounding. Python's int constants stay \<open>int\<close> and are converted
  where the source mixes them with floats. A numpy array of shape (3,) is a triple; an
  array of shape (n, 3) is a list of triples, one per row.
\<close>

type_synonym vec3 = "real \<times> real \<times> real"

fun x_of :: "vec3 \<Rightarrow> real" where
  "x_of (a, b, c) = a"

fun y_of :: "vec3 \<Rightarrow> real" where
  "y_of (a, b, c) = b"

fun z_of :: "vec3 \<Rightarrow> real" where
  "z_of (a, b, c) = c"

fun vadd :: "vec3 \<Rightarrow> vec3 \<Rightarrow> vec3" where
  "vadd (a, b, c) (d, e, f) = (a + d, b + e, c + f)"

fun vsub :: "vec3 \<Rightarrow> vec3 \<Rightarrow> vec3" where
  "vsub (a, b, c) (d, e, f) = (a - d, b - e, c - f)"

fun smul :: "real \<Rightarrow> vec3 \<Rightarrow> vec3" where
  "smul k (a, b, c) = (k * a, k * b, k * c)"

fun vscale :: "vec3 \<Rightarrow> real \<Rightarrow> vec3" where
  "vscale (a, b, c) k = (a * k, b * k, c * k)"

fun sdiv :: "vec3 \<Rightarrow> real \<Rightarrow> vec3" where
  "sdiv (a, b, c) k = (a / k, b / k, c / k)"

fun np_dot :: "vec3 \<Rightarrow> vec3 \<Rightarrow> real" where
  "np_dot (a, b, c) (d, e, f) = a * d + b * e + c * f"

fun linalg_norm :: "vec3 \<Rightarrow> real" where
  "linalg_norm (a, b, c) = sqrt (a * a + b * b + c * c)"

definition radians :: "real \<Rightarrow> real" where
  "radians d = d * pi / 180"

text \<open>\<open>np.mean(rows, axis=0)\<close>: the componentwise sum of the rows over their number.\<close>

fun vsum :: "vec3 list \<Rightarrow> vec3" where
  "vsum [] = (0, 0, 0)"
| "vsum (v # vs) = vadd v (vsum vs)"

definition np_mean_axis0 :: "vec3 list \<Rightarrow> vec3" where
  "np_mean_axis0 rows = sdiv (vsum rows) (real (length rows))"

datatype error = KeyError string | IndexError | AssertionError string | ValueError string

definition bind_r :: "error + 'a \<Rightarrow> ('a \<Rightarrow> error + 'b) \<Rightarrow> error + 'b" where
  "bind_r m f = (case m of Inl e \<Rightarrow> Inl e | Inr v \<Rightarrow> f v)"

text \<open>
  A Python dict keeps insertion order, and the loops of the program run in that order, so
  a dict is an association list. \<open>d[k]\<close> raises KeyError on a missing key; \<open>d[k] = v\<close>
  replaces the value of a present key in place and appends a new key at the end.
\<close>

fun lookup :: "(string \<times> 'a) list \<Rightarrow> string \<Rightarrow> error + 'a" where
  "lookup [] k = Inl (KeyError k)"
| "lookup ((k', v) # kvs) k = (if k' = k then Inr v else lookup kvs k)"

fun dict_set :: "(string \<times> 'a) list \<Rightarrow> string \<Rightarrow> 'a \<Rightarrow> (string \<times> 'a) list" where
  "dict_set [] k v = [(k, v)]"
| "dict_set ((k', v') # kvs) k v =
     (if k' = k then (k, v) # kvs else (k', v') # dict_set kvs k v)"

definition keys :: "(string \<times> 'a) list \<Rightarrow> string list" where
  "keys d = map fst d"

definition dict_values :: "(string \<times> 'a) list \<Rightarrow> 'a list" where
  "dict_values d = map snd d"

section \<open>Configuration\<close>

record config =
  AXIS_LIMIT :: int
  GALAXY_SIZE :: int
  CENTER_SIZE :: int
  TAIL_POINTS :: nat
  TAIL_LENGTH :: int
  TAIL_WIDTH :: int
  TAIL_ALPHA :: real
  TAIL_COLOR :: string
  TAIL_DIRECTION :: vec3
  ZOOM_SCALE :: real

definition Config :: config where
  "Config = \<lparr> AXIS_LIMIT = 150, GALAXY_SIZE = 250, CENTER_SIZE = 150,
     TAIL_POINTS = 2500, TAIL_LENGTH = 86, TAIL_WIDTH = 4, TAIL_ALPHA = 2 / 10,
     TAIL_COLOR = ''#888888'', TAIL_DIRECTION = (1, 15 / 100, - (1 / 10)),
     ZOOM_SCALE = 12 / 10 \<rparr>"

section \<open>Galaxy data and the coordinate transform\<close>

record galaxy_data =
  RA :: "(string \<times> real) list"
  DEC :: "(string \<times> real) list"
  REDSHIFT :: "(string \<times> int) list"
  DISTANCE :: int
  DEGREE_TO_KPC :: int

definition GalaxyData :: galaxy_data where
  "GalaxyData = \<lparr>
     RA = [(''NGC 3628'', 11 + 20 / 60 + 17 / 3600),
           (''M66'', 11 + 20 / 60 + 15 / 3600),
           (''M65'', 11 + 18 / 60 + 56 / 3600)],
     DEC = [(''NGC 3628'', 13 + 35 / 60 + 23 / 3600),
            (''M66'', 12 + 59 / 60 + 30 / 3600),
            (''M65'', 13 + 5 / 60 + 32 / 3600)],
     REDSHIFT = [(''NGC 3628'', 843), (''M66'', 727), (''M65'', 807)],
     DISTANCE = 10700,
     DEGREE_TO_KPC = 187 \<rparr>"

text \<open>The body of the loop of \<open>get_positions_relative_to_ngc3628\<close> for one name.\<close>

definition offset_of ::
  "galaxy_data \<Rightarrow> (string \<times> real) list \<Rightarrow> real \<Rightarrow> real \<Rightarrow> int \<Rightarrow> string \<Rightarrow> error + vec3" where
  "offset_of cls ra_deg ra_ngc dec_ngc z_ngc name =
     bind_r (lookup ra_deg name) (\<lambda>ra_name.
       let ra_offset_deg = ra_name - ra_ngc;
           ra_offset_kpc = ra_offset_deg * real_of_int (DEGREE_TO_KPC cls) * cos (radians dec_ngc)
       in bind_r (lookup (DEC cls) name) (\<lambda>dec_name.
         let dec_offset_deg = dec_name - dec_ngc;
             dec_offset_kpc = dec_offset_deg * real_of_int (DEGREE_TO_KPC cls)
         in bind_r (lookup (REDSHIFT cls) name) (\<lambda>z_name.
           let z_offset = z_name - z_ngc;
               z_offset_kpc = real_of_int z_offset * (1 / 10)
           in Inr (ra_offset_kpc, dec_offset_kpc, z_offset_kpc))))"

fun offsets_loop ::
  "galaxy_data \<Rightarrow> (string \<times> real) list \<Rightarrow> real \<Rightarrow> real \<Rightarrow> int \<Rightarrow> string list \<Rightarrow>
     (string \<times> vec3) list \<Rightarrow> error + (string \<times> vec3) list" where
  "offsets_loop cls ra_deg ra_ngc dec_ngc z_ngc [] positions = Inr positions"
| "offsets_loop cls ra_deg ra_ngc dec_ngc z_ngc (name # names) positions =
     bind_r (offset_of cls ra_deg ra_ngc dec_ngc z_ngc name) (\<lambda>p.
       offsets_loop cls ra_deg ra_ngc dec_ngc z_ngc names (dict_set positions name p))"

definition get_positions_relative_to_ngc3628 :: "galaxy_data \<Rightarrow> error + (string \<times> vec3) list" where
  "get_positions_relative_to_ngc3628 cls =
     (let ra_deg = map (\<lambda>(name, hours). (name, hours * 15)) (RA cls)
      in bind_r (lookup ra_deg ''NGC 3628'') (\<lambda>ra_ngc.
         bind_r (lookup (DEC cls) ''NGC 3628'') (\<lambda>dec_ngc.
         bind_r (lookup (REDSHIFT cls) ''NGC 3628'') (\<lambda>z_ngc.
           offsets_loop cls ra_deg ra_ngc dec_ngc z_ngc (keys (RA cls)) []))))"

definition get_center :: "galaxy_data \<Rightarrow> error + vec3" where
  "get_center cls =
     bind_r (get_positions_relative_to_ngc3628 cls) (\<lambda>rel.
       Inr (np_mean_axis0 (dict_values rel)))"

fun center_loop :: "vec3 \<Rightarrow> (string \<times> vec3) list \<Rightarrow> (string \<times> vec3) list \<Rightarrow> (string \<times> vec3) list" where
  "center_loop center [] positions = positions"
| "center_loop center ((name, pos) # items) positions =
     center_loop center items (dict_set positions name (vsub pos center))"

definition get_positions :: "galaxy_data \<Rightarrow> error + (string \<times> vec3) list" where
  "get_positions cls =
     bind_r (get_positions_relative_to_ngc3628 cls) (\<lambda>rel_to_ngc.
     bind_r (get_center cls) (\<lambda>center.
       Inr (center_loop center rel_to_ngc [])))"

text \<open>
  \<open>verify_conventions\<close>: the report it prints is left out; the assertions on each galaxy
  are kept in the order of the source, and a failed one is the value \<open>Inl (AssertionError _)\<close>.
\<close>

fun verify_loop :: "(string \<times> vec3) list \<Rightarrow> error + unit" where
  "verify_loop [] = Inr ()"
| "verify_loop ((name, pos) # items) =
     (if name = ''NGC 3628'' then
        (if \<not> y_of pos > 0 then Inl (AssertionError ''NGC 3628 should be North of center'')
         else verify_loop items)
      else if name = ''M66'' then
        (if \<not> x_of pos > 0 then Inl (AssertionError ''M66 should be East of center'')
         else if \<not> y_of pos < 0 then Inl (AssertionError ''M66 should be South of center'')
         else verify_loop items)
      else if name = ''M65'' then
        (if \<not> x_of pos < 0 then Inl (AssertionError ''M65 should be West of center'')
         else if \<not> y_of pos < 0 then Inl (AssertionError ''M65 should be South of center'')
         else verify_loop items)
      else verify_loop items)"

definition get_tail_direction :: "galaxy_data \<Rightarrow> vec3" where
  "get_tail_direction cls = (1, 15 / 100, - (1 / 10))"

definition verify_conventions :: "galaxy_data \<Rightarrow> error + bool" where
  "verify_conventions cls =
     bind_r (get_positions cls) (\<lambda>positions.
     bind_r (verify_loop positions) (\<lambda>_. Inr True))"

section \<open>The tidal tail generator\<close>

text \<open>
  The random source is not seeded, so the outcome of the draws is a parameter of the model:
  \<open>beta_draw i\<close> is the \<open>i\<close>-th sample that \<open>np.random.beta\<close> returns and \<open>normal_draw i\<close>
  the \<open>i\<close>-th row that \<open>np.random.normal\<close> returns. Both numpy calls return exactly as
  many samples as their size argument asks for.
\<close>

definition np_random_beta :: "(nat \<Rightarrow> real) \<Rightarrow> nat \<Rightarrow> real list" where
  "np_random_beta beta_draw n = map beta_draw [0..<n]"

definition np_random_normal :: "(nat \<Rightarrow> vec3) \<Rightarrow> nat \<Rightarrow> vec3 list" where
  "np_random_normal normal_draw n = map normal_draw [0..<n]"

definition np_outer :: "real list \<Rightarrow> vec3 \<Rightarrow> vec3 list" where
  "np_outer ts v = map (\<lambda>t. smul t v) ts"

text \<open>\<open>noise -= np.outer(np.dot(noise, dir_unit), dir_unit)\<close>, lines 342 to 343.\<close>

definition remove_along :: "vec3 \<Rightarrow> vec3 list \<Rightarrow> vec3 list" where
  "remove_along dir_unit noise =
     map2 vsub noise (np_outer (map (\<lambda>row. np_dot row dir_unit) noise) dir_unit)"

definition scaled_direction :: "config \<Rightarrow> vec3" where
  "scaled_direction cfg =
     vscale (sdiv (TAIL_DIRECTION cfg) (linalg_norm (TAIL_DIRECTION cfg)))
       (real_of_int (TAIL_LENGTH cfg))"

text \<open>
  Lines 347 to 350: the row of the curvature matrix for one centered sample.
\<close>

definition curvature_row :: "real \<Rightarrow> vec3" where
  "curvature_row tc = (tc * 5, tc * 8, \<bar>tc\<bar> * 5)"

definition generate ::
  "config \<Rightarrow> (string \<times> vec3) list \<Rightarrow> (nat \<Rightarrow> real) \<Rightarrow> (nat \<Rightarrow> vec3) \<Rightarrow> error + vec3 list" where
  "generate cfg galaxy_positions beta_draw normal_draw =
     bind_r (lookup galaxy_positions ''NGC 3628'') (\<lambda>ngc_pos.
       let direction = scaled_direction cfg;
           t = np_random_beta beta_draw (TAIL_POINTS cfg);
           points = map (\<lambda>row. vadd ngc_pos row) (np_outer t direction);
           noise = np_random_normal normal_draw (TAIL_POINTS cfg);
           dir_unit = sdiv direction (linalg_norm direction);
           noise = remove_along dir_unit noise;
           t_centered = map (\<lambda>ti. ti - 1 / 2) t;
           curvature = map curvature_row t_centered
       in Inr (map2 vadd (map2 vadd points noise) curvature))"

section \<open>The plotter\<close>

text \<open>
  Each drawing method is modelled by the data it hands to matplotlib; the figure itself is
  outside the model.
\<close>

fun get_idx :: "'a list \<Rightarrow> nat \<Rightarrow> error + 'a" where
  "get_idx [] i = Inl IndexError"
| "get_idx (x # xs) 0 = Inr x"
| "get_idx (x # xs) (Suc i) = get_idx xs i"

record edge_drawing =
  edge_p1 :: vec3
  edge_p2 :: vec3
  edge_mid :: vec3
  edge_dist :: real

definition draw_edge :: "vec3 list \<Rightarrow> nat \<times> nat \<Rightarrow> error + edge_drawing" where
  "draw_edge coords e =
     bind_r (get_idx coords (fst e)) (\<lambda>a.
     bind_r (get_idx coords (snd e)) (\<lambda>b.
       Inr \<lparr> edge_p1 = a, edge_p2 = b, edge_mid = sdiv (vadd a b) 2,
             edge_dist = linalg_norm (vsub b a) \<rparr>))"

fun edges_loop :: "vec3 list \<Rightarrow> (nat \<times> nat) list \<Rightarrow> error + edge_drawing list" where
  "edges_loop coords [] = Inr []"
| "edges_loop coords (e # es) =
     bind_r (draw_edge coords e) (\<lambda>d.
     bind_r (edges_loop coords es) (\<lambda>ds. Inr (d # ds)))"

fun coords_of :: "(string \<times> vec3) list \<Rightarrow> string list \<Rightarrow> error + vec3 list" where
  "coords_of positions [] = Inr []"
| "coords_of positions (n # ns) =
     bind_r (lookup positions n) (\<lambda>p.
     bind_r (coords_of positions ns) (\<lambda>ps. Inr (p # ps)))"

definition plot_triangle :: "(string \<times> vec3) list \<Rightarrow> error + edge_drawing list" where
  "plot_triangle positions =
     (let names = keys positions
      in bind_r (coords_of positions names) (\<lambda>coords.
           edges_loop coords [(0, 1), (1, 2), (2, 0)]))"





type_synonym ivec3 = "int \<times> int \<times> int"

fun iadd :: "ivec3 \<Rightarrow> ivec3 \<Rightarrow> ivec3" where
  "iadd (a, b, c) (d, e, f) = (a + d, b + e, c + f)"

record earth_drawing =
  marker :: ivec3
  label_at :: ivec3
  sight_lines :: "(ivec3 \<times> ivec3) list"

text \<open>
  \<open>ax.plot([start[0], 0], [start[1], 0], [start[2], 50])\<close> draws the segment from
  \<open>start\<close> to the point \<open>(0, 0, 50)\<close>; a sight-line is the pair of its two end points.
\<close>

definition plot_earth :: earth_drawing where
  "plot_earth =
     (let earth_pos = (0, 0, -150)
      in \<lparr> marker = earth_pos,
           label_at = iadd earth_pos (0, -20, 0),
           sight_lines =
             concat (map (\<lambda>x_offset. map (\<lambda>y_offset.
               (let start = iadd earth_pos (x_offset, y_offset, 0)
                in (start, (0, 0, 50)))) [-30, 30]) [-30, 30]) \<rparr>)"

record axes3d =
  xlim3d :: "real \<times> real"
  ylim3d :: "real \<times> real"
  zlim3d :: "real \<times> real"

definition setup_axes :: "config \<Rightarrow> axes3d" where
  "setup_axes cfg =
     (let limit = real_of_int (AXIS_LIMIT cfg)
      in \<lparr> xlim3d = (- limit, limit), ylim3d = (- limit, limit), zlim3d = (- limit, limit) \<rparr>)"

text \<open>The body of the loop of \<open>on_scroll\<close> for one axis: getter, rescale, setter.\<close>

definition np_mean_pair :: "real \<times> real \<Rightarrow> real" where
  "np_mean_pair limits = (fst limits + snd limits) / 2"

definition rescale :: "real \<Rightarrow> real \<times> real \<Rightarrow> real \<times> real" where
  "rescale scale limits =
     (let mid = np_mean_pair limits;
          half = (snd limits - fst limits) * scale / 2
      in (mid - half, mid + half))"

definition on_scroll :: "config \<Rightarrow> string \<Rightarrow> axes3d \<Rightarrow> axes3d" where
  "on_scroll cfg button ax =
     (let scale = (if button = ''up'' then 1 / ZOOM_SCALE cfg else ZOOM_SCALE cfg)
      in \<lparr> xlim3d = rescale scale (xlim3d ax),
           ylim3d = rescale scale (ylim3d ax),
           zlim3d = rescale scale (zlim3d ax) \<rparr>)"

section \<open>The specification's formulas\<close>

text \<open>
  The offset of section 4.1 of the specification, written from its words: the east offset
  is the difference of right ascensions, converted from hours to degrees by the factor 15,
  times the degree-to-length constant, times the cosine of the reference declination in
  radians; the north offset is the difference of declinations times that constant; the
  line-of-sight offset is the difference of redshift velocities times 0.1.
\<close>

definition spec_offset :: "galaxy_data \<Rightarrow> string \<Rightarrow> string \<Rightarrow> error + vec3" where
  "spec_offset cls reference target =
     bind_r (lookup (RA cls) target) (\<lambda>target_ra.
     bind_r (lookup (RA cls) reference) (\<lambda>reference_ra.
     bind_r (lookup (DEC cls) target) (\<lambda>target_dec.
     bind_r (lookup (DEC cls) reference) (\<lambda>reference_dec.
     bind_r (lookup (REDSHIFT cls) target) (\<lambda>target_v.
     bind_r (lookup (REDSHIFT cls) reference) (\<lambda>reference_v.
       Inr ((target_ra - reference_ra) * 15 * real_of_int (DEGREE_TO_KPC cls)
              * cos (radians reference_dec),
            (target_dec - reference_dec) * real_of_int (DEGREE_TO_KPC cls),
            real_of_int (target_v - reference_v) * (1 / 10))))))))"

section \<open>Notions used in the statements\<close>

text \<open>The unit vector \<open>dir_unit\<close> that \<open>generate\<close> computes at line 342.\<close>

definition tail_dir_unit :: "config \<Rightarrow> vec3" where
  "tail_dir_unit cfg =
     (let direction = scaled_direction cfg in sdiv direction (linalg_norm direction))"

text \<open>The difference of the positions of two galaxies of a dict.\<close>

definition difference_of :: "(string \<times> vec3) list \<Rightarrow> string \<Rightarrow> string \<Rightarrow> error + vec3" where
  "difference_of positions a b =
     bind_r (lookup positions a) (\<lambda>pa.
     bind_r (lookup positions b) (\<lambda>pb. Inr (vsub pa pb)))"

text \<open>The distances that \<open>plot_triangle\<close> writes on the three edges, in drawing order.\<close>

definition edge_distances :: "(string \<times> vec3) list \<Rightarrow> error + real list" where
  "edge_distances positions =
     bind_r (plot_triangle positions) (\<lambda>edges. Inr (map edge_dist edges))"

text \<open>The cosine of the declination of NGC 3628, 13 degrees 35 minutes 23 seconds.\<close>

definition cos_dec :: real where
  "cos_dec = cos (radians (48923 / 3600))"


text \<open>The Euclidean distance of two points, written from its definition.\<close>

definition euclidean_distance :: "vec3 \<Rightarrow> vec3 \<Rightarrow> real" where
  "euclidean_distance a b =
     sqrt ((x_of a - x_of b)\<^sup>2 + (y_of a - y_of b)\<^sup>2 + (z_of a - z_of b)\<^sup>2)"

section \<open>The coordinate transform on the fixed table\<close>

lemma GalaxyData_tables:
  "RA GalaxyData = [(''NGC 3628'', 11 + 20 / 60 + 17 / 3600),
     (''M66'', 11 + 20 / 60 + 15 / 3600), (''M65'', 11 + 18 / 60 + 56 / 3600)]"
  "DEC GalaxyData = [(''NGC 3628'', 13 + 35 / 60 + 23 / 3600),
     (''M66'', 12 + 59 / 60 + 30 / 3600), (''M65'', 13 + 5 / 60 + 32 / 3600)]"
  "REDSHIFT GalaxyData = [(''NGC 3628'', 843), (''M66'', 727), (''M65'', 807)]"
  "DEGREE_TO_KPC GalaxyData = 187"
  by (simp_all add: GalaxyData_def)

lemma relative_positions_value:
  "get_positions_relative_to_ngc3628 GalaxyData = Inr
     [(''NGC 3628'', (0, 0, 0)),
      (''M66'', (- (187 / 120) * cos_dec, - (402611 / 3600), - (116 / 10))),
      (''M65'', (- (5049 / 80) * cos_dec, - (334917 / 3600), - (36 / 10)))]"
  by (simp add: get_positions_relative_to_ngc3628_def GalaxyData_def bind_r_def keys_def
      offset_of_def Let_def cos_dec_def)

lemma centered_positions_value:
  "get_positions GalaxyData = Inr
     [(''NGC 3628'', (15521 / 720 * cos_dec, 92191 / 1350, 76 / 15)),
      (''M66'', (14399 / 720 * cos_dec, - (94061 / 2160), - (98 / 15))),
      (''M65'', (- (374 / 9) * cos_dec, - (267223 / 10800), 22 / 15))]"
  by (simp add: get_positions_def get_center_def relative_positions_value bind_r_def
      dict_values_def np_mean_axis0_def)

lemma cos_dec_pos: "0 < cos_dec"
proof -
  have lo: "0 < radians (48923 / 3600)"
    by (simp add: radians_def)
  have hi: "radians (48923 / 3600) < pi / 2"
    by (simp add: radians_def)
  from lo hi show ?thesis
    unfolding cos_dec_def by (intro cos_gt_zero_pi) auto
qed

text \<open>
  C1. On the fixed galaxy table \<open>get_positions_relative_to_ngc3628\<close> returns the offsets
  of the three galaxies, \<open>get_center\<close> returns their arithmetic mean, \<open>get_positions\<close>
  returns, for the same three names in the same order, each offset minus that centroid,
  and the componentwise sum of these three centroid-relative vectors is the zero vector.
\<close>

theorem centered_positions_sum_zero:
  "\<exists>o1 o2 o3 c.
     get_positions_relative_to_ngc3628 GalaxyData
       = Inr [(''NGC 3628'', o1), (''M66'', o2), (''M65'', o3)] \<and>
     c = sdiv (vadd o1 (vadd o2 o3)) 3 \<and>
     get_center GalaxyData = Inr c \<and>
     get_positions GalaxyData
       = Inr [(''NGC 3628'', vsub o1 c), (''M66'', vsub o2 c), (''M65'', vsub o3 c)] \<and>
     vadd (vsub o1 c) (vadd (vsub o2 c) (vsub o3 c)) = (0, 0, 0)"
  by (simp add: relative_positions_value centered_positions_value get_center_def bind_r_def
      dict_values_def np_mean_axis0_def)

text \<open>
  C2. On the fixed galaxy table \<open>get_positions_relative_to_ngc3628\<close> returns a dict with
  the keys of the table, in its order, and the entry of every galaxy of the table is the
  offset that the formulas of the specification give for it with reference NGC 3628.
\<close>

theorem relative_offsets_match_spec:
  "\<exists>ps. get_positions_relative_to_ngc3628 GalaxyData = Inr ps \<and>
     keys ps = keys (RA GalaxyData) \<and>
     map (lookup ps) (keys (RA GalaxyData))
       = map (spec_offset GalaxyData ''NGC 3628'') (keys (RA GalaxyData))"
  by (simp add: relative_positions_value keys_def spec_offset_def bind_r_def
      GalaxyData_tables cos_dec_def)

text \<open>
  C3. On the fixed galaxy table the entry of the reference galaxy NGC 3628 in the dict
  that \<open>get_positions_relative_to_ngc3628\<close> returns is exactly the zero vector.
\<close>

theorem reference_offset_is_zero:
  "bind_r (get_positions_relative_to_ngc3628 GalaxyData) (\<lambda>ps. lookup ps ''NGC 3628'')
     = Inr (0, 0, 0)"
  by (simp add: relative_positions_value bind_r_def)

text \<open>
  C4. After centering, on the fixed galaxy table, the north component of NGC 3628 is
  strictly positive and the north components of M66 and of M65 are strictly negative;
  \<open>verify_conventions\<close> raises no AssertionError and returns True.
\<close>

theorem north_signs_after_centering:
  "\<exists>ngc m66 m65.
     get_positions GalaxyData = Inr [(''NGC 3628'', ngc), (''M66'', m66), (''M65'', m65)] \<and>
     0 < y_of ngc \<and> y_of m66 < 0 \<and> y_of m65 < 0 \<and>
     verify_conventions GalaxyData = Inr True"
  using cos_dec_pos by (simp add: centered_positions_value verify_conventions_def bind_r_def)

text \<open>
  C10. Centering is a translation: on the fixed galaxy table, with \<open>o1\<close>, \<open>o2\<close>, \<open>o3\<close> the
  offsets before centering, for every ordered pair of galaxies the difference of their
  centered positions is the difference of their offsets, and the three edge distances
  that \<open>plot_triangle\<close> computes from the centered positions are the Euclidean distances
  between the offsets before centering, in the order of the edges.
\<close>

theorem centering_preserves_differences:
  "\<exists>o1 o2 o3 p1 p2 p3 rel ps.
     rel = [(''NGC 3628'', o1), (''M66'', o2), (''M65'', o3)] \<and>
     ps = [(''NGC 3628'', p1), (''M66'', p2), (''M65'', p3)] \<and>
     get_positions_relative_to_ngc3628 GalaxyData = Inr rel \<and>
     get_positions GalaxyData = Inr ps \<and>
     map (\<lambda>(a, b). difference_of ps a b) (List.product (keys ps) (keys ps))
       = map (\<lambda>(a, b). Inr (vsub a b)) (List.product [o1, o2, o3] [o1, o2, o3]) \<and>
     map (\<lambda>(a, b). difference_of ps a b) (List.product (keys ps) (keys ps))
       = map (\<lambda>(a, b). difference_of rel a b) (List.product (keys rel) (keys rel)) \<and>
     edge_distances ps = edge_distances rel \<and>
     edge_distances ps
       = Inr [euclidean_distance o1 o2, euclidean_distance o2 o3, euclidean_distance o3 o1]"
  by (simp add: relative_positions_value centered_positions_value keys_def difference_of_def
      bind_r_def edge_distances_def plot_triangle_def draw_edge_def eval_nat_numeral
      euclidean_distance_def power2_eq_square algebra_simps)

section \<open>The tidal tail\<close>

lemma remove_along_map:
  "remove_along u noise = map (\<lambda>r. vsub r (smul (np_dot r u) u)) noise"
  by (induction noise) (simp_all add: remove_along_def np_outer_def)

lemma map2_same_source:
  "map2 f (map g xs) (map h xs) = map (\<lambda>x. f (g x) (h x)) xs"
  by (induction xs) simp_all

lemma generate_rows:
  assumes "lookup galaxy_positions ''NGC 3628'' = Inr ngc_pos"
  shows "generate cfg galaxy_positions beta_draw normal_draw = Inr
     (map (\<lambda>i. vadd (vadd (vadd ngc_pos (smul (beta_draw i) (scaled_direction cfg)))
                     (vsub (normal_draw i)
                        (smul (np_dot (normal_draw i) (tail_dir_unit cfg)) (tail_dir_unit cfg))))
                 (curvature_row (beta_draw i - 1 / 2)))
        [0..<TAIL_POINTS cfg])"
  using assms
  by (simp add: generate_def bind_r_def Let_def remove_along_map np_outer_def
      np_random_beta_def np_random_normal_def tail_dir_unit_def map2_same_source comp_def)

lemma norm_pos: "v \<noteq> (0, 0, 0) \<Longrightarrow> 0 < linalg_norm v"
proof (cases v)
  case (fields a b c)
  assume "v \<noteq> (0, 0, 0)"
  with fields have "a \<noteq> 0 \<or> b \<noteq> 0 \<or> c \<noteq> 0" by simp
  then have "0 < a * a + b * b + c * c"
    by (metis add_pos_nonneg add_nonneg_pos zero_le_square not_real_square_gt_zero add_nonneg_nonneg)
  with fields show ?thesis by simp
qed

lemma dot_self: "np_dot v v = linalg_norm v * linalg_norm v"
proof (cases v)
  case (fields a b c)
  have "0 \<le> a * a + b * b + c * c" by simp
  with fields show ?thesis by simp
qed

lemma dot_sdiv: "np_dot r (sdiv v k) = np_dot r v / k"
  by (cases r, cases v) (simp add: add_divide_distrib)

lemma dot_sdiv_left: "np_dot (sdiv v k) r = np_dot v r / k"
  by (cases r, cases v) (simp add: add_divide_distrib)

lemma unit_dot:
  assumes "v \<noteq> (0, 0, 0)"
  shows "np_dot (sdiv v (linalg_norm v)) (sdiv v (linalg_norm v)) = 1"
proof -
  have pos: "0 < linalg_norm v" using assms by (rule norm_pos)
  have "np_dot (sdiv v (linalg_norm v)) (sdiv v (linalg_norm v))
          = np_dot v v / linalg_norm v / linalg_norm v"
    by (simp add: dot_sdiv dot_sdiv_left)
  also have "\<dots> = 1"
    using pos by (simp add: dot_self)
  finally show ?thesis .
qed

lemma dot_remove:
  "np_dot (vsub r (smul k u)) u = np_dot r u - k * np_dot u u"
  by (cases r, cases u) (simp add: algebra_simps)

lemma residual_orthogonal:
  "np_dot u u = 1 \<Longrightarrow> np_dot (vsub r (smul (np_dot r u) u)) u = 0"
  by (simp add: dot_remove)

lemma dot_vscale: "np_dot r (vscale v k) = np_dot r v * k"
  by (cases r, cases v) (simp add: algebra_simps)

lemma Config_direction_norm: "0 < linalg_norm (TAIL_DIRECTION Config)"
  by (rule norm_pos) (simp add: Config_def)

lemma Config_scaled_nonzero: "scaled_direction Config \<noteq> (0, 0, 0)"
  using Config_direction_norm
  by (simp add: scaled_direction_def Config_def)


lemma Config_unit: "np_dot (tail_dir_unit Config) (tail_dir_unit Config) = 1"
  using unit_dot [OF Config_scaled_nonzero] by (simp add: tail_dir_unit_def Let_def)

lemma orthogonal_to_direction:
  assumes "np_dot r (tail_dir_unit Config) = 0"
  shows "np_dot r (scaled_direction Config) = 0 \<and> np_dot r (TAIL_DIRECTION Config) = 0"
proof -
  have n: "0 < linalg_norm (scaled_direction Config)"
    using Config_scaled_nonzero by (rule norm_pos)
  from assms n have s: "np_dot r (scaled_direction Config) = 0"
    by (simp add: tail_dir_unit_def Let_def dot_sdiv)
  have "np_dot r (scaled_direction Config)
          = np_dot r (TAIL_DIRECTION Config) / linalg_norm (TAIL_DIRECTION Config) * 86"
    by (simp add: scaled_direction_def dot_vscale dot_sdiv) (simp add: Config_def)
  with s Config_direction_norm have "np_dot r (TAIL_DIRECTION Config) = 0"
    by simp
  with s show ?thesis by simp
qed

text \<open>
  C5. Whatever the random draws are, \<open>generate\<close> returns a point cloud (when the dict it
  is given has the anchor NGC 3628) and the cloud has exactly \<open>TAIL_POINTS\<close> rows; each
  row is a vector of three components by its type.
\<close>

theorem generate_point_count:
  "lookup galaxy_positions ''NGC 3628'' = Inr ngc_pos \<Longrightarrow>
     \<exists>tail. generate cfg galaxy_positions beta_draw normal_draw = Inr tail \<and>
       length tail = TAIL_POINTS cfg"
  by (simp add: generate_rows)

theorem generate_point_count_witness:
  "\<exists>ps ngc. get_positions GalaxyData = Inr ps \<and> lookup ps ''NGC 3628'' = Inr ngc \<and>
     (\<exists>tail. generate Config ps (\<lambda>i. 1 / 2) (\<lambda>i. (1, 2, 3)) = Inr tail \<and> length tail = 2500)"
proof -
  have ps: "get_positions GalaxyData = Inr
     [(''NGC 3628'', (15521 / 720 * cos_dec, 92191 / 1350, 76 / 15)),
      (''M66'', (14399 / 720 * cos_dec, - (94061 / 2160), - (98 / 15))),
      (''M65'', (- (374 / 9) * cos_dec, - (267223 / 10800), 22 / 15))]"
    by (rule centered_positions_value)
  have lk: "lookup [(''NGC 3628'', (15521 / 720 * cos_dec, 92191 / 1350, 76 / 15)),
      (''M66'', (14399 / 720 * cos_dec, - (94061 / 2160), - (98 / 15))),
      (''M65'', (- (374 / 9) * cos_dec, - (267223 / 10800), 22 / 15))] ''NGC 3628''
      = Inr (15521 / 720 * cos_dec, 92191 / 1350, 76 / 15)"
    by simp
  have n: "TAIL_POINTS Config = 2500" by (simp add: Config_def)
  from generate_point_count [OF lk, of Config "\<lambda>i. 1 / 2" "\<lambda>i. (1, 2, 3)"]
  obtain tail where "generate Config [(''NGC 3628'', (15521 / 720 * cos_dec, 92191 / 1350, 76 / 15)),
      (''M66'', (14399 / 720 * cos_dec, - (94061 / 2160), - (98 / 15))),
      (''M65'', (- (374 / 9) * cos_dec, - (267223 / 10800), 22 / 15))]
      (\<lambda>i. 1 / 2) (\<lambda>i. (1, 2, 3)) = Inr tail" "length tail = 2500"
    unfolding n by blast
  with ps lk show ?thesis by blast
qed

text \<open>
  C6. With the configured direction and length, for every outcome of the Gaussian draws
  and every row \<open>i\<close> of the cloud: the row that \<open>generate\<close> returns is the base point plus a
  residual plus the curvature, where the residual is row \<open>i\<close> of the noise after the
  component along the tail has been removed, and the residual is orthogonal to the unit
  direction, to the scaled direction and to the configured direction.
\<close>

theorem noise_orthogonal_to_tail:
  assumes "lookup galaxy_positions ''NGC 3628'' = Inr ngc_pos"
      and "i < TAIL_POINTS Config"
  shows "\<exists>tail residual.
     generate Config galaxy_positions beta_draw normal_draw = Inr tail \<and>
     residual = remove_along (tail_dir_unit Config)
                  (np_random_normal normal_draw (TAIL_POINTS Config)) ! i \<and>
     tail ! i = vadd (vadd (vadd ngc_pos (smul (beta_draw i) (scaled_direction Config))) residual)
                  (curvature_row (beta_draw i - 1 / 2)) \<and>
     np_dot residual (tail_dir_unit Config) = 0 \<and>
     np_dot residual (scaled_direction Config) = 0 \<and>
     np_dot residual (TAIL_DIRECTION Config) = 0"
proof -
  define u where "u = tail_dir_unit Config"
  define residual where "residual = vsub (normal_draw i) (smul (np_dot (normal_draw i) u) u)"
  have r: "remove_along u (np_random_normal normal_draw (TAIL_POINTS Config)) ! i = residual"
    using assms(2) by (simp add: remove_along_map np_random_normal_def residual_def)
  have t: "generate Config galaxy_positions beta_draw normal_draw = Inr
     (map (\<lambda>i. vadd (vadd (vadd ngc_pos (smul (beta_draw i) (scaled_direction Config)))
                     (vsub (normal_draw i) (smul (np_dot (normal_draw i) u) u)))
                 (curvature_row (beta_draw i - 1 / 2)))
        [0..<TAIL_POINTS Config])"
    unfolding u_def by (rule generate_rows [OF assms(1)])
  have o: "np_dot residual u = 0"
    unfolding residual_def u_def by (rule residual_orthogonal [OF Config_unit])
  from orthogonal_to_direction [OF o [unfolded u_def]] o r t assms(2)
  show ?thesis
    unfolding u_def [symmetric] by (simp add: residual_def)
qed

theorem noise_orthogonal_to_tail_witness:
  "lookup [(''NGC 3628'', (0, 0, 0))] ''NGC 3628'' = Inr ((0, 0, 0) :: vec3) \<and>
   (0 :: nat) < TAIL_POINTS Config \<and>
   (\<exists>tail residual.
     generate Config [(''NGC 3628'', (0, 0, 0))] (\<lambda>i. 1 / 2) (\<lambda>i. (1, 2, 3)) = Inr tail \<and>
     residual = remove_along (tail_dir_unit Config)
                  (np_random_normal (\<lambda>i. (1, 2, 3)) (TAIL_POINTS Config)) ! 0 \<and>
     tail ! 0 = vadd (vadd (vadd (0, 0, 0) (smul (1 / 2) (scaled_direction Config))) residual)
                  (curvature_row (1 / 2 - 1 / 2)) \<and>
     np_dot residual (tail_dir_unit Config) = 0 \<and>
     np_dot residual (scaled_direction Config) = 0 \<and>
     np_dot residual (TAIL_DIRECTION Config) = 0)"
proof -
  have a: "lookup [(''NGC 3628'', (0, 0, 0))] ''NGC 3628'' = Inr ((0, 0, 0) :: vec3)" by simp
  have b: "(0 :: nat) < TAIL_POINTS Config" by (simp add: Config_def)
  from noise_orthogonal_to_tail [OF a b, of "\<lambda>i. 1 / 2" "\<lambda>i. (1, 2, 3)"] a b show ?thesis by blast
qed


section \<open>The plotter's drawings\<close>

lemma rescale_inverse: "s \<noteq> 0 \<Longrightarrow> rescale (1 / s) (rescale s l) = l"
  by (cases l) (simp add: rescale_def np_mean_pair_def Let_def field_simps)

lemma rescale_mid: "np_mean_pair (rescale s l) = np_mean_pair l"
  by (simp add: rescale_def np_mean_pair_def Let_def)

text \<open>
  C8. From any axis limits, a scroll down (scale \<open>ZOOM_SCALE\<close>, zoom out) followed by a
  scroll up (scale \<open>1 / ZOOM_SCALE\<close>, zoom in) restores the limits of the three axes, and
  a scroll of either kind keeps the midpoint of each axis.
\<close>

theorem zoom_round_trip:
  "on_scroll Config ''up'' (on_scroll Config ''down'' ax) = ax \<and>
   np_mean_pair (xlim3d (on_scroll Config button ax)) = np_mean_pair (xlim3d ax) \<and>
   np_mean_pair (ylim3d (on_scroll Config button ax)) = np_mean_pair (ylim3d ax) \<and>
   np_mean_pair (zlim3d (on_scroll Config button ax)) = np_mean_pair (zlim3d ax)"
proof -
  have z: "ZOOM_SCALE Config \<noteq> 0" by (simp add: Config_def)
  show ?thesis
    by (simp add: on_scroll_def Let_def rescale_inverse [OF z] rescale_mid)
qed

text \<open>
  C9, as the code has it. The Earth marker is at \<open>(0, 0, -150)\<close>, and the four sight-lines
  start at the offsets \<open>(x, y, 0)\<close> with \<open>x\<close> and \<open>y\<close> each \<open>-30\<close> or \<open>30\<close> around it and all end at the point \<open>(0, 0, 50)\<close>
  of the line-of-sight axis, beyond the centroid.
\<close>

theorem earth_sight_lines_end_points:
  "marker plot_earth = (0, 0, -150) \<and>
   sight_lines plot_earth =
     [((-30, -30, -150), (0, 0, 50)), ((-30, 30, -150), (0, 0, 50)),
      ((30, -30, -150), (0, 0, 50)), ((30, 30, -150), (0, 0, 50))]"
  by (simp add: plot_earth_def Let_def)

text \<open>
  C9, as the claim states it, fails: the first sight-line does not end at the centroid
  origin \<open>(0, 0, 0)\<close>.
\<close>

theorem sight_line_not_at_origin:
  "snd (sight_lines plot_earth ! 0) \<noteq> (0, 0, 0)"
  by (simp add: plot_earth_def Let_def)

section \<open>The scatter layer of the tail\<close>






















end
